theory Spec2Isabelle
  imports Main
begin

section \<open>Strings as the script sees them\<close>

text \<open>
  A JavaScript string is modelled as a HOL \<open>string\<close>: a list of code units, here the
  code units below 256. \<open>isSpace\<close> is the white space of \<open>String.prototype.trim\<close>, of
  \<open>parseInt\<close> and of the regular expression class \<open>\s\<close> among those code units: tab, line
  feed, vertical tab, form feed, carriage return, space and the no-break space.
\<close>

definition isSpace :: "char \<Rightarrow> bool" where
  "isSpace c = (of_char c \<in> {9, 10, 11, 12, 13, 32, 160 :: nat})"

definition trim :: "string \<Rightarrow> string" where
  "trim s = rev (dropWhile isSpace (rev (dropWhile isSpace s)))"

definition isUpper :: "char \<Rightarrow> bool" where
  "isUpper c = (let n = (of_char c :: nat) in
     (65 \<le> n \<and> n \<le> 90) \<or> (192 \<le> n \<and> n \<le> 222 \<and> n \<noteq> 215))"

definition toLowerChar :: "char \<Rightarrow> char" where
  "toLowerChar c = (if isUpper c then char_of (of_char c + (32 :: nat)) else c)"

definition toLowerCase :: "string \<Rightarrow> string" where
  "toLowerCase s = map toLowerChar s"

subsection \<open>isValidEmail\<close>

text \<open>
  \<^verbatim>\<open>const re = /^[^\s@]+@[^\s@]+\.[^\s@]+$/; return re.test(String(email).toLowerCase());\<close>

  \<open>emailPart\<close> is the class \<open>[^\s@]\<close>. \<open>matchesEmail\<close> is the language of the pattern, written
  as the pattern reads: three non-empty runs of that class, separated by one \<open>@\<close> and one dot.
  \<open>emailTest\<close> is \<open>re.test\<close>, executable: the first run cannot contain \<open>@\<close>, so it is the
  longest prefix of the class, and the rest must then split at some dot that is neither its
  first nor its last character. Lemma \<open>emailTest_matches\<close> below shows that the two agree.
\<close>

definition emailPart :: "char \<Rightarrow> bool" where
  "emailPart c = (\<not> isSpace c \<and> c \<noteq> CHR ''@'')"

definition matchesEmail :: "string \<Rightarrow> bool" where
  "matchesEmail e = (\<exists>a b c. e = a @ ''@'' @ b @ ''.'' @ c \<and> a \<noteq> [] \<and> b \<noteq> [] \<and> c \<noteq> []
      \<and> list_all emailPart a \<and> list_all emailPart b \<and> list_all emailPart c)"

definition emailTest :: "string \<Rightarrow> bool" where
  "emailTest e =
     (let a = takeWhile emailPart e; r = dropWhile emailPart e in
      a \<noteq> [] \<and>
      (case r of
         [] \<Rightarrow> False
       | x # d \<Rightarrow> x = CHR ''@'' \<and> list_all emailPart d \<and> CHR ''.'' \<in> set (butlast (tl d))))"

definition isValidEmail :: "string \<Rightarrow> bool" where
  "isValidEmail email = emailTest (toLowerCase email)"

subsection \<open>parseInt and number formatting\<close>

text \<open>
  \<open>parseInt(s, 10)\<close>: leading white space is skipped, one sign is read, then the longest run
  of decimal digits; with no digit the result is \<open>NaN\<close>, which is \<open>None\<close> here. A JavaScript
  number is a double: the model is exact for the integers a double holds exactly (up to
  \<open>2^53\<close>), which covers every length a field value can have. For a \<open>data-min-length\<close>
  above \<open>2^53\<close> the comparison with the length still comes out as in the script, but the
  number printed in the message is the rounded double there and the exact integer here.
\<close>

definition isDigit :: "char \<Rightarrow> bool" where
  "isDigit c = (48 \<le> (of_char c :: nat) \<and> (of_char c :: nat) \<le> 57)"

definition digitVal :: "char \<Rightarrow> nat" where
  "digitVal c = of_char c - 48"

definition digitsVal :: "string \<Rightarrow> nat" where
  "digitsVal ds = foldl (\<lambda>acc c. 10 * acc + digitVal c) 0 ds"

definition parseInt :: "string \<Rightarrow> int option" where
  "parseInt s =
     (let t = dropWhile isSpace s;
          neg = (case t of [] \<Rightarrow> False | c # _ \<Rightarrow> c = CHR ''-'');
          u = (case t of [] \<Rightarrow> [] | c # r \<Rightarrow> if c = CHR ''-'' \<or> c = CHR ''+'' then r else t);
          ds = takeWhile isDigit u
      in if ds = [] then None
         else Some (if neg then - int (digitsVal ds) else int (digitsVal ds)))"

definition digitChar :: "nat \<Rightarrow> char" where
  "digitChar d = ''0123456789'' ! d"

fun showNat :: "nat \<Rightarrow> string" where
  "showNat n = (if n < 10 then [digitChar n] else showNat (n div 10) @ [digitChar (n mod 10)])"

definition showNumber :: "int \<Rightarrow> string" where
  "showNumber n = (if n < 0 then CHR ''-'' # showNat (nat (- n)) else showNat (nat n))"

declare showNat.simps [simp del]

section \<open>The page: one managed form and its surroundings\<close>

text \<open>
  A field is a form control (\<open>input\<close>, \<open>textarea\<close> or \<open>select\<close>) of the form. The record
  holds what the script reads and writes: the \<open>required\<close> flag, the \<open>type\<close> and \<open>value\<close>
  properties, the value \<open>form.reset()\<close> restores, \<open>dataset.minLength\<close> (absent: \<open>None\<close>),
  the presence of the \<open>data-confirm\<close> attribute, whether the class list holds \<open>is-invalid\<close>,
  and the element \<open>field.closest('.form-group') || field.parentElement\<close>, named by a number.
  Fields are identified by their position in document order.
\<close>

datatype tagName = Input | Textarea | Select

record field =
  tag :: tagName
  required :: bool
  ftype :: string
  fvalue :: string
  defaultValue :: string
  minLength :: "string option"
  confirm :: bool
  isInvalid :: bool
  formGroup :: nat

text \<open>
  An \<open>.invalid-feedback\<close> element below a form group: its text (set through \<open>textContent\<close>,
  so shown as it is), and whether it is a child of the group itself (\<open>removeChild\<close> accepts only a child). \<open>feedback p g\<close> lists the
  \<open>.invalid-feedback\<close> descendants of group \<open>g\<close> in document order, so that its head is what
  \<open>formGroup.querySelector('.invalid-feedback')\<close> returns. Form groups of different numbers are
  taken to be disjoint subtrees: no group lies inside another.
\<close>

record feedbackEl =
  fbText :: string
  fbChild :: bool

text \<open>
  The submit control found by \<open>form.querySelector(this.submitButtonSelector)\<close>: its
  \<open>disabled\<close> property and whether its class list holds \<open>btn-loading\<close>. The label text of the
  control is not part of the model.
\<close>

record button =
  disabled :: bool
  btnLoading :: bool

text \<open>
  What an element shows is either literal text (set through \<open>textContent\<close>) or markup that
  the browser parses (set through \<open>innerHTML\<close>).
\<close>

datatype content = Literal string | Markup string

record toast =
  className :: string
  body :: content

datatype exn = TypeError string | NotFoundError | JsError string

text \<open>
  The effects of the handlers, in the order they happen: a field annotated by
  \<open>markFieldAsInvalid\<close>, the loading state switched on and off, a call of \<open>fetch\<close> (address
  and method; what the request then gives is an input of the handler), a call of
  \<open>console.error\<close>, a call of \<open>preventDefault\<close>.
\<close>

datatype event =
    Marked nat string
  | LoadingOn
  | LoadingOff
  | Fetch string string
  | ConsoleError exn
  | PreventDefault

record page =
  controls :: "field list"
  feedback :: "nat \<Rightarrow> feedbackEl list"
  submitButton :: "button option"
  formLoading :: bool
  formAction :: string
  formMethod :: string
  resetOnSuccess :: "string option"
  toasts :: "toast list"
  href :: string
  trace :: "event list"

definition emit :: "event \<Rightarrow> page \<Rightarrow> page" where
  "emit e p = p\<lparr>trace := trace p @ [e]\<rparr>"

subsection \<open>Field annotations\<close>

text \<open>
  \<^verbatim>\<open>clearFieldValidation(field)\<close>: the class is removed first; the first \<open>.invalid-feedback\<close>
  descendant of the group, when there is one, is then handed to \<open>removeChild\<close>, which throws
  \<open>NotFoundError\<close> for a node that is not a child of the group.
\<close>

definition clearFieldValidation :: "page \<Rightarrow> nat \<Rightarrow> exn option \<times> page" where
  "clearFieldValidation p i =
     (let g = formGroup (controls p ! i);
          p1 = p\<lparr>controls := (controls p)[i := (controls p ! i)\<lparr>isInvalid := False\<rparr>]\<rparr>
      in case feedback p1 g of
           [] \<Rightarrow> (None, p1)
         | existingError # rest \<Rightarrow>
             if fbChild existingError then (None, p1\<lparr>feedback := (feedback p1)(g := rest)\<rparr>)
             else (Some NotFoundError, p1))"

text \<open>
  \<^verbatim>\<open>markFieldAsInvalid(field, message)\<close>: clear, add the class, append a new
  \<open>.invalid-feedback\<close> child holding the message as text.
\<close>

definition markFieldAsInvalid :: "page \<Rightarrow> nat \<Rightarrow> string \<Rightarrow> exn option \<times> page" where
  "markFieldAsInvalid p i message =
     (let g = formGroup (controls p ! i) in
      case clearFieldValidation p i of
        (Some e, p1) \<Rightarrow> (Some e, p1)
      | (None, p1) \<Rightarrow>
          (None, emit (Marked i message)
             (p1\<lparr>controls := (controls p1)[i := (controls p1 ! i)\<lparr>isInvalid := True\<rparr>],
                 feedback := (feedback p1)(g := feedback p1 g @ [\<lparr>fbText = message, fbChild = True\<rparr>])\<rparr>)))"

subsection \<open>validateForm\<close>

text \<open>
  \<open>querySelectorAllFrom P k fs\<close> lists the positions, counted from \<open>k\<close>, of the fields of \<open>fs\<close>
  that match \<open>P\<close>, in document order; \<open>querySelectorFrom\<close> gives the first of them.
\<close>

fun querySelectorAllFrom :: "(field \<Rightarrow> bool) \<Rightarrow> nat \<Rightarrow> field list \<Rightarrow> nat list" where
  "querySelectorAllFrom P k [] = []"
| "querySelectorAllFrom P k (f # fs) =
     (if P f then k # querySelectorAllFrom P (Suc k) fs else querySelectorAllFrom P (Suc k) fs)"

fun querySelectorFrom :: "(field \<Rightarrow> bool) \<Rightarrow> nat \<Rightarrow> field list \<Rightarrow> nat option" where
  "querySelectorFrom P k [] = None"
| "querySelectorFrom P k (f # fs) = (if P f then Some k else querySelectorFrom P (Suc k) fs)"

definition isPasswordInput :: "field \<Rightarrow> bool" where
  "isPasswordInput f = (tag f = Input \<and> ftype f = ''password'')"

definition isConfirmInput :: "field \<Rightarrow> bool" where
  "isConfirmInput f = (tag f = Input \<and> ftype f = ''password'' \<and> confirm f)"

text \<open>The branch \<open>this.markFieldAsInvalid(field, message); isValid = false;\<close>.\<close>

definition markAndFail :: "page \<Rightarrow> nat \<Rightarrow> string \<Rightarrow> (exn + bool) \<times> page" where
  "markAndFail p i message =
     (case markFieldAsInvalid p i message of
        (Some e, p1) \<Rightarrow> (Inl e, p1)
      | (None, p1) \<Rightarrow> (Inr False, p1))"

text \<open>
  The body of \<open>requiredFields.forEach\<close>, for the field at position \<open>i\<close> and the current
  \<open>isValid\<close>; it returns the new \<open>isValid\<close>, or the exception that left the loop.
\<close>

definition validateField :: "page \<Rightarrow> nat \<Rightarrow> bool \<Rightarrow> (exn + bool) \<times> page" where
  "validateField p i isValid =
     (let fld = controls p ! i in
      if trim (fvalue fld) = [] then markAndFail p i ''This field is required''
      else if ftype fld = ''email'' \<and> \<not> isValidEmail (fvalue fld) then
        markAndFail p i ''Please enter a valid email address''
      else if ftype fld = ''password'' \<and> minLength fld \<noteq> None \<and> minLength fld \<noteq> Some [] then
        (case parseInt (case minLength fld of None \<Rightarrow> [] | Some s \<Rightarrow> s) of
           None \<Rightarrow> (Inr isValid, p)
         | Some n \<Rightarrow>
             if int (length (fvalue fld)) < n then
               markAndFail p i (''Password must be at least '' @ showNumber n @ '' characters'')
             else (Inr isValid, p))
      else (Inr isValid, p))"

fun forEachRequired :: "nat list \<Rightarrow> bool \<Rightarrow> page \<Rightarrow> (exn + bool) \<times> page" where
  "forEachRequired [] isValid p = (Inr isValid, p)"
| "forEachRequired (i # rest) isValid p =
     (case validateField p i isValid of
        (Inl e, p1) \<Rightarrow> (Inl e, p1)
      | (Inr v, p1) \<Rightarrow> forEachRequired rest v p1)"

text \<open>
  The check after the loop: \<open>password\<close> is the first \<open>input[type="password"]\<close> of the form,
  \<open>confirmPassword\<close> the first \<open>input[type="password"][data-confirm]\<close>.
\<close>

definition checkConfirmation :: "page \<Rightarrow> bool \<Rightarrow> (exn + bool) \<times> page" where
  "checkConfirmation p isValid =
     (case (querySelectorFrom isPasswordInput 0 (controls p), querySelectorFrom isConfirmInput 0 (controls p)) of
        (Some pw, Some cf) \<Rightarrow>
          if fvalue (controls p ! pw) \<noteq> fvalue (controls p ! cf) then
            markAndFail p cf ''Passwords do not match''
          else (Inr isValid, p)
      | _ \<Rightarrow> (Inr isValid, p))"

definition validateForm :: "page \<Rightarrow> (exn + bool) \<times> page" where
  "validateForm p =
     (case forEachRequired (querySelectorAllFrom required 0 (controls p)) True p of
        (Inl e, p1) \<Rightarrow> (Inl e, p1)
      | (Inr v, p1) \<Rightarrow> checkConfirmation p1 v)"

subsection \<open>setupValidation: the input and blur listeners\<close>

definition inputHandler :: "page \<Rightarrow> nat \<Rightarrow> exn option \<times> page" where
  "inputHandler p i = clearFieldValidation p i"

definition blurHandler :: "page \<Rightarrow> nat \<Rightarrow> exn option \<times> page" where
  "blurHandler p i =
     (let input = controls p ! i in
      if required input \<and> trim (fvalue input) = [] then
        markFieldAsInvalid p i ''This field is required''
      else if ftype input = ''email'' \<and> fvalue input \<noteq> [] \<and> \<not> isValidEmail (fvalue input) then
        markFieldAsInvalid p i ''Please enter a valid email address''
      else (None, p))"

section \<open>Feedback: loading state and notifications\<close>

text \<open>
  \<^verbatim>\<open>setFormLoading(form, isLoading)\<close>: the submit control is looked up again; with none, the
  first statement of either branch (\<open>submitButton.disabled = ...\<close>) throws a \<open>TypeError\<close> and
  nothing has been changed yet. The message of such an error is the engine's; the text used
  here is the one V8 prints.
\<close>

definition nullWrite :: "string \<Rightarrow> string" where
  "nullWrite prop = ''Cannot set properties of null (setting '' @ [CHR 0x27] @ prop @ [CHR 0x27] @ '')''"

definition nullRead :: "string \<Rightarrow> string" where
  "nullRead prop = ''Cannot read properties of null (reading '' @ [CHR 0x27] @ prop @ [CHR 0x27] @ '')''"

definition setFormLoading :: "page \<Rightarrow> bool \<Rightarrow> exn option \<times> page" where
  "setFormLoading p isLoading =
     (case submitButton p of
        None \<Rightarrow> (Some (TypeError (nullWrite ''disabled'')), p)
      | Some b \<Rightarrow>
          (None, emit (if isLoading then LoadingOn else LoadingOff)
             (p\<lparr>submitButton := Some (b\<lparr>disabled := isLoading, btnLoading := isLoading\<rparr>),
                formLoading := isLoading\<rparr>)))"

text \<open>
  The template literal assigned to \<open>toast.innerHTML\<close>, with \<open>title\<close> and \<open>message\<close> spliced in
  as they are.
\<close>

definition toastMarkup :: "string \<Rightarrow> string \<Rightarrow> string" where
  \<open>toastMarkup title message =
     ''\<newline>      <div class="toast-content">\<newline>        <h4 class="toast-title">'' @ title @
     ''</h4>\<newline>        <p class="toast-message">'' @ message @
     ''</p>\<newline>      </div>\<newline>      <button class="toast-close" aria-label="Close">&times;</button>\<newline>    ''\<close>

text \<open>
  \<^verbatim>\<open>toast.querySelector('.toast-close')\<close> reads the tree the browser parsed from the markup.
  The parser is not code of this repository: \<open>hasClose\<close>, a parameter, says for a markup string
  whether the parsed fragment holds an element of class \<open>toast-close\<close>. One fact about every
  HTML parser is built in: text without \<open><\<close> opens no tag and no comment, so with such a
  title and message the button of the template is always found.
\<close>

definition plainText :: "string \<Rightarrow> bool" where
  "plainText s = (CHR ''<'' \<notin> set s)"

definition closeButtonFound :: "(string \<Rightarrow> bool) \<Rightarrow> string \<Rightarrow> string \<Rightarrow> bool" where
  "closeButtonFound hasClose title message =
     ((plainText title \<and> plainText message) \<or> hasClose (toastMarkup title message))"

text \<open>
  \<^verbatim>\<open>showNotification(title, message, type)\<close> with the default duration. With no close button
  in the parsed toast, \<open>closeButton.addEventListener\<close> throws before the toast is appended.
  The timer that removes the toast later is outside the model.
\<close>

definition showNotification ::
  "(string \<Rightarrow> bool) \<Rightarrow> page \<Rightarrow> string \<Rightarrow> string \<Rightarrow> string \<Rightarrow> (exn + toast) \<times> page" where
  "showNotification hasClose p title message type =
     (let t = \<lparr>className = ''toast '' @ type, body = Markup (toastMarkup title message)\<rparr> in
      if closeButtonFound hasClose title message then (Inr t, p\<lparr>toasts := toasts p @ [t]\<rparr>)
      else (Inl (TypeError (nullRead ''addEventListener'')), p))"

section \<open>Submission\<close>

text \<open>
  A value of a property of the response body: a string, or any other value, given by its
  truthiness and by the string JavaScript converts it to. The body itself: \<open>null\<close>, an object
  (its members in the order of the text; \<open>JSON.parse\<close> keeps the last of a repeated key), or
  any other value (a number, a string, a boolean, an array), none of which has a \<open>redirect\<close>
  or \<open>message\<close> property.
\<close>

datatype jsval = JString string | JOther bool string

datatype json = JNull | JObject "(string \<times> jsval) list" | JNonObject

datatype jsonBody = Unparsable | Parsed json

text \<open>What \<open>await fetch(...)\<close> gives: a rejection, or a response with its \<open>ok\<close> flag and body.\<close>

datatype fetched = Rejected exn | Response bool jsonBody

definition getProp :: "json \<Rightarrow> string \<Rightarrow> exn + jsval option" where
  "getProp j k =
     (case j of
        JNull \<Rightarrow> Inl (TypeError (nullRead k))
      | JObject kvs \<Rightarrow> Inr (map_of (rev kvs) k)
      | JNonObject \<Rightarrow> Inr None)"

definition truthy :: "jsval option \<Rightarrow> bool" where
  "truthy v = (case v of None \<Rightarrow> False | Some (JString s) \<Rightarrow> s \<noteq> [] | Some (JOther t _) \<Rightarrow> t)"

definition toStr :: "jsval option \<Rightarrow> string" where
  "toStr v = (case v of None \<Rightarrow> ''undefined'' | Some (JString s) \<Rightarrow> s | Some (JOther _ s) \<Rightarrow> s)"

definition exnMessage :: "exn \<Rightarrow> string" where
  "exnMessage e =
     (case e of
        TypeError m \<Rightarrow> m
      | JsError m \<Rightarrow> m
      | NotFoundError \<Rightarrow> ''The node to be removed is not a child of this node.'')"

text \<open>\<open>form.reset()\<close>: every control goes back to its default value.\<close>

definition formReset :: "page \<Rightarrow> page" where
  "formReset p = p\<lparr>controls := map (\<lambda>f. f\<lparr>fvalue := defaultValue f\<rparr>) (controls p)\<rparr>"

text \<open>The branch \<open>if (response.ok) { ... }\<close> of the \<open>try\<close> block.\<close>

definition onSuccess :: "(string \<Rightarrow> bool) \<Rightarrow> page \<Rightarrow> json \<Rightarrow> exn option \<times> page" where
  "onSuccess hasClose p result =
     (case showNotification hasClose p ''Success!'' ''Operation completed successfully.'' ''success'' of
        (Inl e, p1) \<Rightarrow> (Some e, p1)
      | (Inr _, p1) \<Rightarrow>
          (case getProp result ''redirect'' of
             Inl e \<Rightarrow> (Some e, p1)
           | Inr r \<Rightarrow>
               if truthy r then (None, p1\<lparr>href := toStr r\<rparr>)
               else if resetOnSuccess p1 = Some ''true'' then (None, formReset p1)
               else (None, p1)))"

text \<open>\<^verbatim>\<open>response.json().catch(() => ({}))\<close>: a body that does not parse gives the empty object.\<close>

definition resultOf :: "jsonBody \<Rightarrow> json" where
  "resultOf b = (case b of Unparsable \<Rightarrow> JObject [] | Parsed j \<Rightarrow> j)"

text \<open>
  The \<open>try\<close> block: the request goes to \<open>form.action || window.location.href\<close> with
  \<open>form.method || 'POST'\<close>. The result is the exception the block ends with, if any.
\<close>

definition tryBlock :: "(string \<Rightarrow> bool) \<Rightarrow> page \<Rightarrow> fetched \<Rightarrow> exn option \<times> page" where
  "tryBlock hasClose p outcome =
     (let p1 = emit (Fetch (if formAction p \<noteq> [] then formAction p else href p)
                           (if formMethod p \<noteq> [] then formMethod p else ''POST'')) p
      in case outcome of
           Rejected e \<Rightarrow> (Some e, p1)
         | Response ok b \<Rightarrow>
             (let result = resultOf b in
              if ok then onSuccess hasClose p1 result
              else (case getProp result ''message'' of
                      Inl e \<Rightarrow> (Some e, p1)
                    | Inr m \<Rightarrow>
                        (Some (JsError (if truthy m then toStr m else ''An error occurred'')), p1))))"

definition catchBlock :: "(string \<Rightarrow> bool) \<Rightarrow> page \<Rightarrow> exn \<Rightarrow> exn option \<times> page" where
  "catchBlock hasClose p error =
     (case showNotification hasClose (emit (ConsoleError error) p) ''Error''
             (if exnMessage error \<noteq> [] then exnMessage error
              else ''An error occurred. Please try again.'') ''error'' of
        (Inl e, p1) \<Rightarrow> (Some e, p1)
      | (Inr _, p1) \<Rightarrow> (None, p1))"

text \<open>
  The submit listener of \<open>setupForm\<close>, run to its end for one submit event; \<open>outcome\<close> is what
  the awaited request gives if it is reached. The first component is the exception that
  escapes the listener, if any. \<open>finally\<close> runs whatever the \<open>try\<close> and \<open>catch\<close> blocks did; an
  exception of its own replaces a pending one.
\<close>

definition submitHandler :: "(string \<Rightarrow> bool) \<Rightarrow> fetched \<Rightarrow> page \<Rightarrow> exn option \<times> page" where
  "submitHandler hasClose outcome p =
     (case validateForm (emit PreventDefault p) of
        (Inl e, p1) \<Rightarrow> (Some e, p1)
      | (Inr False, p1) \<Rightarrow> (None, p1)
      | (Inr True, p1) \<Rightarrow>
          (case setFormLoading p1 True of
             (Some e, p2) \<Rightarrow> (Some e, p2)
           | (None, p2) \<Rightarrow>
               (let (pending, p4) =
                      (case tryBlock hasClose p2 outcome of
                         (None, p3) \<Rightarrow> (None, p3)
                       | (Some error, p3) \<Rightarrow> catchBlock hasClose p3 error)
                in case setFormLoading p4 False of
                     (Some e, p5) \<Rightarrow> (Some e, p5)
                   | (None, p5) \<Rightarrow> (pending, p5))))"

section \<open>Construction\<close>

text \<open>
  The document as the constructor sees it: the elements below \<open>head\<close> and below \<open>body\<close> in
  document order, each with its id, and for every managed form the number of submit
  listeners attached to it. \<open>appendChild\<close> puts the new element last.
\<close>

record element =
  elId :: string
  elTag :: string
  elClass :: string

record document =
  headEls :: "element list"
  bodyEls :: "element list"
  submitListeners :: "nat list"

definition getElementById :: "document \<Rightarrow> string \<Rightarrow> element option" where
  "getElementById d i = find (\<lambda>e. elId e = i) (headEls d @ bodyEls d)"

definition createNotificationContainer :: "document \<Rightarrow> document" where
  "createNotificationContainer d =
     (case getElementById d ''notification-container'' of
        Some container \<Rightarrow> d
      | None \<Rightarrow> d\<lparr>bodyEls := bodyEls d @
          [\<lparr>elId = ''notification-container'', elTag = ''div'', elClass = ''toast-container''\<rparr>]\<rparr>)"

definition addStyles :: "document \<Rightarrow> document" where
  "addStyles d =
     (if getElementById d ''form-handler-styles'' \<noteq> None then d
      else d\<lparr>headEls := headEls d @
          [\<lparr>elId = ''form-handler-styles'', elTag = ''style'', elClass = []\<rparr>]\<rparr>)"

text \<open>\<open>setupForm\<close> for every managed form: one more submit listener each.\<close>

definition setupForms :: "document \<Rightarrow> document" where
  "setupForms d = d\<lparr>submitListeners := map Suc (submitListeners d)\<rparr>"

text \<open>\<open>new FormHandler(options)\<close>: the container, then \<open>init()\<close>: the styles, then the forms.\<close>

definition construct :: "document \<Rightarrow> document" where
  "construct d = setupForms (addStyles (createNotificationContainer d))"

definition countId :: "string \<Rightarrow> document \<Rightarrow> nat" where
  "countId i d = length (filter (\<lambda>e. elId e = i) (headEls d @ bodyEls d))"

section \<open>Derived notions used in the statements\<close>

text \<open>The events that happened between a page state and a later one.\<close>

definition during :: "page \<Rightarrow> page \<Rightarrow> event list" where
  "during p q = drop (length (trace p)) (trace q)"

text \<open>
  The net effect of a call of \<open>markFieldAsInvalid\<close> that does not throw (lemma
  \<open>markFieldAsInvalid_annotate\<close>), and of a sequence of such calls.
\<close>

definition annotate :: "page \<Rightarrow> nat \<times> string \<Rightarrow> page" where
  "annotate p im =
     (let i = fst im; g = formGroup (controls p ! i) in
      emit (Marked i (snd im))
        (p\<lparr>controls := (controls p)[i := (controls p ! i)\<lparr>isInvalid := True\<rparr>],
           feedback := (feedback p)(g := tl (feedback p g) @ [\<lparr>fbText = snd im, fbChild = True\<rparr>])\<rparr>))"

definition applyMarks :: "(nat \<times> string) list \<Rightarrow> page \<Rightarrow> page" where
  "applyMarks ms p = foldl annotate p ms"

text \<open>
  What the loop body of \<open>validateForm\<close> decides for one field: the message it marks the field
  with, if any (lemma \<open>validateField_fieldMessage\<close>).
\<close>

definition passwordTooShort :: "field \<Rightarrow> int option" where
  "passwordTooShort f =
     (if ftype f = ''password'' then
        (case minLength f of
           None \<Rightarrow> None
         | Some s \<Rightarrow>
             if s = [] then None
             else (case parseInt s of
                     None \<Rightarrow> None
                   | Some n \<Rightarrow> if int (length (fvalue f)) < n then Some n else None))
      else None)"

definition fieldMessage :: "field \<Rightarrow> string option" where
  "fieldMessage f =
     (if trim (fvalue f) = [] then Some ''This field is required''
      else if ftype f = ''email'' \<and> \<not> isValidEmail (fvalue f) then
        Some ''Please enter a valid email address''
      else (case passwordTooShort f of
              None \<Rightarrow> None
            | Some n \<Rightarrow> Some (''Password must be at least '' @ showNumber n @ '' characters'')))"

text \<open>The marks one run of \<open>validateForm\<close> makes, in order (lemma \<open>validateForm_applyMarks\<close>).\<close>

fun fieldMarks :: "field list \<Rightarrow> nat list \<Rightarrow> (nat \<times> string) list" where
  "fieldMarks fs [] = []"
| "fieldMarks fs (i # rest) =
     (case fieldMessage (fs ! i) of
        None \<Rightarrow> fieldMarks fs rest
      | Some m \<Rightarrow> (i, m) # fieldMarks fs rest)"

definition confirmMark :: "field list \<Rightarrow> (nat \<times> string) list" where
  "confirmMark fs =
     (case (querySelectorFrom isPasswordInput 0 fs, querySelectorFrom isConfirmInput 0 fs) of
        (Some pw, Some cf) \<Rightarrow>
          if fvalue (fs ! pw) \<noteq> fvalue (fs ! cf) then [(cf, ''Passwords do not match'')] else []
      | _ \<Rightarrow> [])"

definition plannedMarks :: "page \<Rightarrow> (nat \<times> string) list" where
  "plannedMarks p =
     fieldMarks (controls p) (querySelectorAllFrom required 0 (controls p)) @ confirmMark (controls p)"

text \<open>Every \<open>.invalid-feedback\<close> element the script can find is a child of its form group.\<close>

definition feedbackFlat :: "page \<Rightarrow> bool" where
  "feedbackFlat p = (\<forall>g. list_all fbChild (feedback p g))"

text \<open>
  The result of the loop body of \<open>validateForm\<close> for one field, read as the result of a
  listener: the exception if one was thrown, and the page.
\<close>

definition asHandler :: "(exn + bool) \<times> page \<Rightarrow> exn option \<times> page" where
  "asHandler r = (case r of (Inl e, q) \<Rightarrow> (Some e, q) | (Inr _, q) \<Rightarrow> (None, q))"

text \<open>The events of the loading cycle: the two switches and the request.\<close>

definition cycleEvent :: "event \<Rightarrow> bool" where
  "cycleEvent e = (case e of LoadingOn \<Rightarrow> True | LoadingOff \<Rightarrow> True | Fetch _ _ \<Rightarrow> True | _ \<Rightarrow> False)"




section \<open>Concrete pages\<close>

text \<open>
  A text input with nothing set, and a page with an empty form, a submit control, no
  notification and nothing logged; the examples below are built from them.
\<close>

definition blankField :: field where
  "blankField = \<lparr>tag = Input, required = False, ftype = ''text'', fvalue = [], defaultValue = [],
     minLength = None, confirm = False, isInvalid = False, formGroup = 0\<rparr>"

definition blankPage :: page where
  "blankPage = \<lparr>controls = [], feedback = (\<lambda>_. []),
     submitButton = Some \<lparr>disabled = False, btnLoading = False\<rparr>, formLoading = False,
     formAction = ''/save'', formMethod = ''post'', resetOnSuccess = None, toasts = [],
     href = ''https://example.org/form'', trace = []\<rparr>"

text \<open>
  A sign-up form: a required email field holding \<open>user.example.org\<close> (no \<open>@\<close>) in group 0 and a
  required, empty email field in group 1.
\<close>

definition signupPage :: page where
  "signupPage = blankPage\<lparr>controls :=
     [blankField\<lparr>required := True, ftype := ''email'', fvalue := ''user.example.org'', formGroup := 0\<rparr>,
      blankField\<lparr>required := True, ftype := ''email'', formGroup := 1\<rparr>]\<rparr>"

text \<open>A newsletter form: one email field that is not required, holding \<open>foo\<close>.\<close>

definition newsletterPage :: page where
  "newsletterPage = blankPage\<lparr>controls := [blankField\<lparr>ftype := ''email'', fvalue := ''foo''\<rparr>]\<rparr>"

text \<open>
  A password form after a failed attempt: the password (group 0) and its confirmation
  (group 1) now hold the same value, and the confirmation still carries the class and the
  message of the earlier mismatch.
\<close>

definition retypedPage :: page where
  "retypedPage = blankPage\<lparr>controls :=
       [blankField\<lparr>required := True, ftype := ''password'', fvalue := ''secret1'', formGroup := 0\<rparr>,
        blankField\<lparr>required := True, ftype := ''password'', fvalue := ''secret1'', confirm := True,
          isInvalid := True, formGroup := 1\<rparr>],
     feedback := (\<lambda>_. [])(1 := [\<lparr>fbText = ''Passwords do not match'', fbChild = True\<rparr>])\<rparr>"

text \<open>
  Two required fields that are children of the same element, which is then the form group of
  both: an empty text field and an email field holding \<open>foo\<close>.
\<close>

definition sharedGroupPage :: page where
  "sharedGroupPage = blankPage\<lparr>controls :=
       [blankField\<lparr>required := True, formGroup := 0\<rparr>,
        blankField\<lparr>required := True, ftype := ''email'', fvalue := ''foo'', formGroup := 0\<rparr>]\<rparr>"

text \<open>
  A profile form: a required, empty text field in group 0 and an optional field in group 1
  that carries an annotation from before.
\<close>

definition profilePage :: page where
  "profilePage = blankPage\<lparr>controls :=
       [blankField\<lparr>required := True, formGroup := 0\<rparr>,
        blankField\<lparr>fvalue := ''x'', isInvalid := True, formGroup := 1\<rparr>],
     feedback := (\<lambda>_. [])(1 := [\<lparr>fbText = ''Please enter a valid email address'', fbChild = True\<rparr>])\<rparr>"

text \<open>A required password field holding \<open>abc\<close>, with \<open>data-min-length="8"\<close>.\<close>

definition shortPasswordPage :: page where
  "shortPasswordPage = blankPage\<lparr>controls :=
       [blankField\<lparr>required := True, ftype := ''password'', fvalue := ''abc'', minLength := Some ''8''\<rparr>]\<rparr>"

text \<open>
  Two password fields, the one bearing \<open>data-confirm\<close> first in the document; the values
  differ.
\<close>

definition confirmFirstPage :: page where
  "confirmFirstPage = blankPage\<lparr>controls :=
       [blankField\<lparr>required := True, ftype := ''password'', fvalue := ''hunter3'', confirm := True,
          formGroup := 0\<rparr>,
        blankField\<lparr>required := True, ftype := ''password'', fvalue := ''hunter2'', formGroup := 1\<rparr>]\<rparr>"

text \<open>A valid form with no element matching the submit-control selector.\<close>

definition noButtonPage :: page where
  "noButtonPage = blankPage\<lparr>controls := [blankField\<lparr>required := True, fvalue := ''Ada''\<rparr>],
     submitButton := None\<rparr>"

text \<open>
  A form with \<open>data-reset-on-success="true"\<close> and one field declared with \<open>value="initial"\<close>
  in which the user typed \<open>typed\<close>.
\<close>

definition resetPage :: page where
  "resetPage = blankPage\<lparr>controls := [blankField\<lparr>fvalue := ''typed'', defaultValue := ''initial''\<rparr>],
     resetOnSuccess := Some ''true''\<rparr>"

text \<open>A document with nothing in it yet, and one managed form.\<close>

definition freshDocument :: document where
  "freshDocument = \<lparr>headEls = [], bodyEls = [], submitListeners = [0]\<rparr>"

section \<open>Properties\<close>

subsection \<open>The email pattern\<close>

lemma of_char_toLowerChar:
  "of_char (toLowerChar c) = (if isUpper c then of_char c + 32 else (of_char c :: nat))"
  by (auto simp: toLowerChar_def isUpper_def Let_def)

lemma isSpace_toLowerChar [simp]: "isSpace (toLowerChar c) = isSpace c"
  unfolding isSpace_def of_char_toLowerChar by (auto simp: isUpper_def Let_def)

lemma char_eq_of_char: "(c = d) = ((of_char c :: nat) = of_char d)"
  by simp

lemma toLowerChar_eq_at [simp]: "(toLowerChar c = CHR ''@'') = (c = CHR ''@'')"
  unfolding char_eq_of_char[of _ "CHR ''@''"] of_char_toLowerChar by (auto simp: isUpper_def Let_def)

lemma toLowerChar_eq_dot [simp]: "(toLowerChar c = CHR ''.'') = (c = CHR ''.'')"
  unfolding char_eq_of_char[of _ "CHR ''.''"] of_char_toLowerChar by (auto simp: isUpper_def Let_def)

lemma emailPart_toLowerChar [simp]: "emailPart (toLowerChar c) = emailPart c"
  by (simp add: emailPart_def)

lemma emailPart_dot [simp]: "emailPart (CHR ''.'')"
  by (simp add: emailPart_def isSpace_def)

lemma emailPart_at [simp]: "\<not> emailPart (CHR ''@'')"
  by (simp add: emailPart_def)

lemma isValidEmail_emailTest: "isValidEmail s = emailTest (toLowerCase s)"
  by (simp add: isValidEmail_def)

lemma emailTest_lower: "emailTest (toLowerCase s) = emailTest s"
proof -
  have c: "emailPart \<circ> toLowerChar = emailPart" by (rule ext) simp
  have d: "CHR ''.'' \<in> toLowerChar ` A \<longleftrightarrow> CHR ''.'' \<in> A" for A
    by (auto simp: image_iff) (metis toLowerChar_eq_dot)+
  have "(case map toLowerChar r of [] \<Rightarrow> False
          | x # d \<Rightarrow> x = CHR ''@'' \<and> list_all emailPart d \<and> CHR ''.'' \<in> set (butlast (tl d)))
      = (case r of [] \<Rightarrow> False
          | x # d \<Rightarrow> x = CHR ''@'' \<and> list_all emailPart d \<and> CHR ''.'' \<in> set (butlast (tl d)))" for r
    by (cases r)
       (simp_all add: list.pred_map c map_butlast[symmetric] map_tl[symmetric] d del: map_butlast map_tl)
  then show ?thesis
    unfolding emailTest_def toLowerCase_def Let_def takeWhile_map dropWhile_map c
    by simp
qed

lemma emailTest_matches: "emailTest e = matchesEmail e"
proof
  assume t: "emailTest e"
  define a where "a = takeWhile emailPart e"
  from t obtain d where r: "dropWhile emailPart e = CHR ''@'' # d" and a: "a \<noteq> []"
    and d: "list_all emailPart d" and dot: "CHR ''.'' \<in> set (butlast (tl d))"
    by (auto simp: emailTest_def Let_def a_def split: list.splits)
  from dot obtain u v where uv: "butlast (tl d) = u @ CHR ''.'' # v"
    by (meson split_list)
  from dot have ne: "tl d \<noteq> []" "d \<noteq> []" by auto
  then have dd: "d = hd d # u @ CHR ''.'' # v @ [last (tl d)]"
    using uv by (metis append_butlast_last_id append_Cons append_assoc list.collapse)
  have e: "e = a @ CHR ''@'' # d"
    using r by (metis a_def takeWhile_dropWhile_id)
  have "list_all emailPart a" by (simp add: a_def list_all_iff) (meson set_takeWhileD)
  moreover have "list_all emailPart (hd d # u)" "list_all emailPart (v @ [last (tl d)])"
    using d by (subst (asm) dd, simp)+
  ultimately show "matchesEmail e"
    unfolding matchesEmail_def using e dd a
    by (intro exI[of _ a] exI[of _ "hd d # u"] exI[of _ "v @ [last (tl d)]"]) auto
next
  assume "matchesEmail e"
  then obtain a b c where e: "e = a @ ''@'' @ b @ ''.'' @ c" and ne: "a \<noteq> []" "b \<noteq> []" "c \<noteq> []"
    and all: "list_all emailPart a" "list_all emailPart b" "list_all emailPart c"
    by (auto simp: matchesEmail_def)
  have tw: "takeWhile emailPart e = a" "dropWhile emailPart e = CHR ''@'' # b @ CHR ''.'' # c"
    using all(1) by (simp_all add: e list_all_iff takeWhile_append2 dropWhile_append2)
  obtain b0 b' where b: "b = b0 # b'" using ne(2) by (cases b) auto
  obtain c' cl where c: "c = c' @ [cl]" using ne(3) by (cases c rule: rev_cases) auto
  have "butlast (tl (b @ CHR ''.'' # c)) = b' @ CHR ''.'' # c'"
    by (simp add: b c butlast_append)
  then show "emailTest e"
    using all ne by (simp add: emailTest_def tw)
qed

lemma isValidEmail_matches: "isValidEmail s = matchesEmail (toLowerCase s)"
  by (simp add: isValidEmail_emailTest emailTest_matches)

lemma isValidEmail_plain: "isValidEmail s = emailTest s"
  by (simp add: isValidEmail_emailTest emailTest_lower)

lemma isValidEmail_needs_at: "isValidEmail s \<Longrightarrow> CHR ''@'' \<in> set s"
  unfolding isValidEmail_plain emailTest_matches matchesEmail_def by auto

lemma isValidEmail_needs_dot: "isValidEmail s \<Longrightarrow> CHR ''.'' \<in> set s"
  unfolding isValidEmail_plain emailTest_matches matchesEmail_def by auto

subsection \<open>Annotating fields\<close>

lemma markFieldAsInvalid_annotate:
  "markFieldAsInvalid p i m = (None, q) \<Longrightarrow> q = annotate p (i, m)"
  by (cases "i < length (controls p)")
     (auto simp: markFieldAsInvalid_def clearFieldValidation_def annotate_def emit_def Let_def list_update_beyond
           split: list.splits if_splits)

lemma markFieldAsInvalid_ok:
  "(\<exists>q. markFieldAsInvalid p i m = (None, q)) =
     (case feedback p (formGroup (controls p ! i)) of [] \<Rightarrow> True | e # _ \<Rightarrow> fbChild e)"
  by (cases "i < length (controls p)")
     (auto simp: markFieldAsInvalid_def clearFieldValidation_def Let_def split: list.splits)

lemma validateField_fieldMessage:
  assumes "validateField p i v = (Inr w, q)"
  shows "case fieldMessage (controls p ! i) of
           None \<Rightarrow> q = p \<and> w = v
         | Some m \<Rightarrow> q = annotate p (i, m) \<and> w = False"
  using assms
  by (auto simp: validateField_def fieldMessage_def passwordTooShort_def markAndFail_def Let_def
           dest: markFieldAsInvalid_annotate split: if_splits option.splits prod.splits)

lemma controls_annotate:
  "controls (annotate p im) = (controls p)[fst im := (controls p ! fst im)\<lparr>isInvalid := True\<rparr>]"
  by (simp add: annotate_def emit_def Let_def)

lemma nth_controls_annotate:
  "controls (annotate p im) ! j =
     (if j = fst im \<and> j < length (controls p) then (controls p ! j)\<lparr>isInvalid := True\<rparr>
      else controls p ! j)"
  by (cases "fst im < length (controls p)")
     (auto simp: controls_annotate nth_list_update list_update_beyond)

lemma length_controls_annotate [simp]: "length (controls (annotate p im)) = length (controls p)"
  by (simp add: controls_annotate)

lemma passwordTooShort_isInvalid [simp]: "passwordTooShort (f\<lparr>isInvalid := b\<rparr>) = passwordTooShort f"
  by (simp add: passwordTooShort_def split: option.splits)

lemma fieldMessage_isInvalid [simp]: "fieldMessage (f\<lparr>isInvalid := b\<rparr>) = fieldMessage f"
  by (simp add: fieldMessage_def)

lemma fieldMessage_annotate [simp]:
  "fieldMessage (controls (annotate p im) ! j) = fieldMessage (controls p ! j)"
  by (simp add: nth_controls_annotate)

lemma fieldMarks_annotate [simp]:
  "fieldMarks (controls (annotate p im)) is = fieldMarks (controls p) is"
  by (induction "is") (simp_all split: option.splits)

lemma querySelectorFrom_update:
  assumes "\<And>f. P (f\<lparr>isInvalid := True\<rparr>) = P f"
  shows "querySelectorFrom P k (fs[i := (fs ! i)\<lparr>isInvalid := True\<rparr>]) = querySelectorFrom P k fs"
proof (induction fs arbitrary: k i)
  case Nil
  then show ?case by simp
next
  case (Cons f fs)
  then show ?case by (cases i) (simp_all add: assms)
qed

lemma querySelectorAllFrom_update:
  assumes "\<And>f. P (f\<lparr>isInvalid := True\<rparr>) = P f"
  shows "querySelectorAllFrom P k (fs[i := (fs ! i)\<lparr>isInvalid := True\<rparr>]) = querySelectorAllFrom P k fs"
proof (induction fs arbitrary: k i)
  case Nil
  then show ?case by simp
next
  case (Cons f fs)
  then show ?case by (cases i) (simp_all add: assms)
qed

lemma fvalue_nth_update [simp]:
  "fvalue (fs[i := (fs ! i)\<lparr>isInvalid := True\<rparr>] ! j) = fvalue (fs ! j)"
  by (cases "i < length fs") (simp_all add: nth_list_update list_update_beyond)

lemma confirmMark_annotate [simp]: "confirmMark (controls (annotate p im)) = confirmMark (controls p)"
  by (simp add: confirmMark_def controls_annotate querySelectorFrom_update isPasswordInput_def
        isConfirmInput_def split: option.splits)

lemma applyMarks_Nil [simp]: "applyMarks [] p = p"
  by (simp add: applyMarks_def)

lemma applyMarks_Cons [simp]: "applyMarks (im # ms) p = applyMarks ms (annotate p im)"
  by (simp add: applyMarks_def)

lemma applyMarks_append: "applyMarks (ms @ ns) p = applyMarks ns (applyMarks ms p)"
  by (simp add: applyMarks_def)

lemma forEachRequired_applyMarks:
  "forEachRequired is v p = (Inr w, q) \<Longrightarrow>
     q = applyMarks (fieldMarks (controls p) is) p \<and> w = (v \<and> fieldMarks (controls p) is = [])"
proof (induction "is" arbitrary: v p)
  case Nil
  then show ?case by simp
next
  case (Cons i rest)
  from Cons.prems obtain v1 p1 where
    step: "validateField p i v = (Inr v1, p1)" and rest: "forEachRequired rest v1 p1 = (Inr w, q)"
    by (auto split: prod.splits sum.splits)
  show ?case
  proof (cases "fieldMessage (controls p ! i)")
    case None
    with validateField_fieldMessage[OF step] have "p1 = p" "v1 = v" by simp_all
    with Cons.IH[OF rest] None show ?thesis by simp
  next
    case (Some m)
    with validateField_fieldMessage[OF step] have "p1 = annotate p (i, m)" "v1 = False" by simp_all
    with Cons.IH[OF rest] Some show ?thesis by simp
  qed
qed

lemma controls_applyMarks_length [simp]: "length (controls (applyMarks ms p)) = length (controls p)"
  by (induction ms arbitrary: p) simp_all

lemma confirmMark_applyMarks [simp]: "confirmMark (controls (applyMarks ms p)) = confirmMark (controls p)"
  by (induction ms arbitrary: p) simp_all

lemma checkConfirmation_applyMarks:
  "checkConfirmation p v = (Inr w, q) \<Longrightarrow>
     q = applyMarks (confirmMark (controls p)) p \<and> w = (v \<and> confirmMark (controls p) = [])"
  by (auto simp: checkConfirmation_def confirmMark_def markAndFail_def
           dest: markFieldAsInvalid_annotate split: option.splits if_splits prod.splits)

lemma validateForm_applyMarks:
  assumes "validateForm p = (Inr ok, q)"
  shows "q = applyMarks (plannedMarks p) p" and "ok = (plannedMarks p = [])"
proof -
  from assms obtain v p1 where
    loop: "forEachRequired (querySelectorAllFrom required 0 (controls p)) True p = (Inr v, p1)"
    and conf: "checkConfirmation p1 v = (Inr ok, q)"
    by (auto simp: validateForm_def split: prod.splits sum.splits)
  from forEachRequired_applyMarks[OF loop] checkConfirmation_applyMarks[OF conf]
  show "q = applyMarks (plannedMarks p) p" and "ok = (plannedMarks p = [])"
    by (auto simp: plannedMarks_def applyMarks_append)
qed

lemma trace_annotate [simp]: "trace (annotate p im) = trace p @ [Marked (fst im) (snd im)]"
  by (simp add: annotate_def emit_def Let_def)

lemma trace_applyMarks: "trace (applyMarks ms p) = trace p @ map (\<lambda>im. Marked (fst im) (snd im)) ms"
  by (induction ms arbitrary: p) simp_all

lemma during_applyMarks: "during p (applyMarks ms p) = map (\<lambda>im. Marked (fst im) (snd im)) ms"
  by (simp add: during_def trace_applyMarks)

lemma Marked_in_during_applyMarks:
  "(Marked i m \<in> set (during p (applyMarks ms p))) = ((i, m) \<in> set ms)"
  by (force simp: during_applyMarks image_iff)

lemma nth_controls_applyMarks:
  "controls (applyMarks ms p) ! j =
     (if j \<in> fst ` set ms \<and> j < length (controls p) then (controls p ! j)\<lparr>isInvalid := True\<rparr>
      else controls p ! j)"
proof (induction ms arbitrary: p)
  case Nil
  then show ?case by simp
next
  case (Cons im ms)
  show ?case
    by (simp add: Cons.IH nth_controls_annotate)
qed

lemma formGroup_applyMarks [simp]:
  "formGroup (controls (applyMarks ms p) ! j) = formGroup (controls p ! j)"
  by (simp add: nth_controls_applyMarks)

lemma frame_annotate [simp]:
  "submitButton (annotate p im) = submitButton p"
  "formLoading (annotate p im) = formLoading p"
  "formAction (annotate p im) = formAction p"
  "formMethod (annotate p im) = formMethod p"
  "resetOnSuccess (annotate p im) = resetOnSuccess p"
  "toasts (annotate p im) = toasts p"
  "href (annotate p im) = href p"
  by (simp_all add: annotate_def emit_def Let_def)

lemma frame_applyMarks [simp]:
  "submitButton (applyMarks ms p) = submitButton p"
  "formLoading (applyMarks ms p) = formLoading p"
  "formAction (applyMarks ms p) = formAction p"
  "formMethod (applyMarks ms p) = formMethod p"
  "resetOnSuccess (applyMarks ms p) = resetOnSuccess p"
  "toasts (applyMarks ms p) = toasts p"
  "href (applyMarks ms p) = href p"
  by (induction ms arbitrary: p) simp_all

lemma feedback_annotate:
  "feedback (annotate p im) g =
     (if g = formGroup (controls p ! fst im)
      then tl (feedback p g) @ [\<lparr>fbText = snd im, fbChild = True\<rparr>]
      else feedback p g)"
  by (simp add: annotate_def emit_def Let_def)




lemma set_tl_subset: "x \<in> set (tl xs) \<Longrightarrow> x \<in> set xs"
  by (cases xs) auto

lemma feedbackFlat_annotate: "feedbackFlat p \<Longrightarrow> feedbackFlat (annotate p im)"
  unfolding feedbackFlat_def
  by (auto simp: feedback_annotate list_all_iff dest: set_tl_subset)

lemma markFieldAsInvalid_flat:
  "feedbackFlat p \<Longrightarrow> markFieldAsInvalid p i m = (None, annotate p (i, m))"
proof -
  assume f: "feedbackFlat p"
  then have "case feedback p (formGroup (controls p ! i)) of [] \<Rightarrow> True | e # _ \<Rightarrow> fbChild e"
    by (cases "feedback p (formGroup (controls p ! i))")
       (auto simp: feedbackFlat_def list_all_iff dest!: spec[of _ "formGroup (controls p ! i)"])
  then obtain q where "markFieldAsInvalid p i m = (None, q)"
    using markFieldAsInvalid_ok by blast
  then show ?thesis using markFieldAsInvalid_annotate by blast
qed

lemma validateField_flat:
  assumes "feedbackFlat p"
  shows "validateField p i v =
     (case fieldMessage (controls p ! i) of
        None \<Rightarrow> (Inr v, p)
      | Some m \<Rightarrow> (Inr False, annotate p (i, m)))"
  using assms
  by (auto simp: validateField_def fieldMessage_def passwordTooShort_def markAndFail_def Let_def
        markFieldAsInvalid_flat split: option.splits)

lemma feedbackFlat_applyMarks: "feedbackFlat p \<Longrightarrow> feedbackFlat (applyMarks ms p)"
  by (induction ms arbitrary: p) (simp_all add: feedbackFlat_annotate)

lemma forEachRequired_flat:
  "feedbackFlat p \<Longrightarrow>
     forEachRequired is v p =
       (Inr (v \<and> fieldMarks (controls p) is = []), applyMarks (fieldMarks (controls p) is) p)"
proof (induction "is" arbitrary: v p)
  case Nil
  then show ?case by simp
next
  case (Cons i rest)
  then show ?case
    by (cases "fieldMessage (controls p ! i)") (simp_all add: validateField_flat feedbackFlat_annotate)
qed

lemma checkConfirmation_flat:
  "feedbackFlat p \<Longrightarrow>
     checkConfirmation p v =
       (Inr (v \<and> confirmMark (controls p) = []), applyMarks (confirmMark (controls p)) p)"
  by (auto simp: checkConfirmation_def confirmMark_def markAndFail_def markFieldAsInvalid_flat
           split: option.splits)

lemma validateForm_flat:
  "feedbackFlat p \<Longrightarrow> validateForm p = (Inr (plannedMarks p = []), applyMarks (plannedMarks p) p)"
  by (simp add: validateForm_def forEachRequired_flat checkConfirmation_flat feedbackFlat_applyMarks
        plannedMarks_def applyMarks_append)

subsection \<open>Which marks a run makes\<close>

lemma querySelectorAllFrom_set:
  "set (querySelectorAllFrom P k fs) = {k + j | j. j < length fs \<and> P (fs ! j)}"
proof (induction fs arbitrary: k)
  case Nil
  then show ?case by simp
next
  case (Cons f fs)
  have "{k + j | j. j < Suc (length fs) \<and> P ((f # fs) ! j)} =
        (if P f then {k} else {}) \<union> {Suc k + j | j. j < length fs \<and> P (fs ! j)}"
    apply (auto simp: less_Suc_eq_0_disj)
    done
  then show ?case by (simp add: Cons.IH)
qed

lemma fieldMarks_set:
  "((i, m) \<in> set (fieldMarks fs is)) = (i \<in> set is \<and> fieldMessage (fs ! i) = Some m)"
  by (induction "is") (auto split: option.splits)

lemma querySelectorFrom_first:
  "querySelectorFrom P k fs = Some n \<Longrightarrow>
     \<exists>j. n = k + j \<and> j < length fs \<and> P (fs ! j) \<and> (\<forall>l < j. \<not> P (fs ! l))"
proof (induction fs arbitrary: k)
  case Nil
  then show ?case by simp
next
  case (Cons f fs)
  show ?case
  proof (cases "P f")
    case True
    with Cons.prems show ?thesis by auto
  next
    case False
    with Cons.prems have "querySelectorFrom P (Suc k) fs = Some n" by simp
    from Cons.IH[OF this] obtain j where
      j: "n = Suc k + j" "j < length fs" "P (fs ! j)" "\<forall>l < j. \<not> P (fs ! l)" by blast
    have "\<forall>l < Suc j. \<not> P ((f # fs) ! l)"
      using False j(4) by (auto simp: less_Suc_eq_0_disj)
    with j show ?thesis by (intro exI[of _ "Suc j"]) auto
  qed
qed

lemma querySelectorFrom_Some:
  "querySelectorFrom P 0 fs = Some n \<Longrightarrow> n < length fs \<and> P (fs ! n) \<and> (\<forall>l < n. \<not> P (fs ! l))"
  using querySelectorFrom_first[of P 0 fs n] by auto

lemma confirmMark_set:
  "((i, m) \<in> set (confirmMark fs)) =
     (m = ''Passwords do not match'' \<and> querySelectorFrom isConfirmInput 0 fs = Some i \<and>
      (\<exists>pw. querySelectorFrom isPasswordInput 0 fs = Some pw \<and> fvalue (fs ! pw) \<noteq> fvalue (fs ! i)))"
  by (cases "querySelectorFrom isPasswordInput 0 fs"; cases "querySelectorFrom isConfirmInput 0 fs")
     (auto simp: confirmMark_def)

lemma plannedMarks_set:
  "((i, m) \<in> set (plannedMarks p)) =
     ((i < length (controls p) \<and> required (controls p ! i) \<and> fieldMessage (controls p ! i) = Some m) \<or>
      (i, m) \<in> set (confirmMark (controls p)))"
  by (auto simp: plannedMarks_def fieldMarks_set querySelectorAllFrom_set)

lemma plannedMarks_bound: "(i, m) \<in> set (plannedMarks p) \<Longrightarrow> i < length (controls p)"
  by (auto simp: plannedMarks_set confirmMark_set dest: querySelectorFrom_Some)

subsection \<open>The concrete pages, evaluated\<close>

lemmas page_defs = blankPage_def blankField_def
lemmas check_defs = plannedMarks_def fieldMessage_def passwordTooShort_def trim_def isSpace_def
  confirmMark_def isPasswordInput_def isConfirmInput_def isValidEmail_plain emailTest_def
  emailPart_def parseInt_def isDigit_def digitsVal_def digitVal_def showNumber_def
  showNat.simps digitChar_def

lemma flat_examples:
  "feedbackFlat newsletterPage" "feedbackFlat retypedPage" "feedbackFlat sharedGroupPage"
  "feedbackFlat profilePage" "feedbackFlat shortPasswordPage" "feedbackFlat confirmFirstPage"
  "feedbackFlat noButtonPage" "feedbackFlat resetPage" "feedbackFlat blankPage"
  by (simp_all add: feedbackFlat_def newsletterPage_def retypedPage_def sharedGroupPage_def
        profilePage_def shortPasswordPage_def confirmFirstPage_def noButtonPage_def resetPage_def
        page_defs)

lemma planned_examples:
  "plannedMarks newsletterPage = []"
  "plannedMarks retypedPage = []"
  "plannedMarks sharedGroupPage = [(0, ''This field is required''), (1, ''Please enter a valid email address'')]"
  "plannedMarks profilePage = [(0, ''This field is required'')]"
  "plannedMarks shortPasswordPage = [(0, ''Password must be at least 8 characters'')]"
  "plannedMarks confirmFirstPage = []"
  "plannedMarks noButtonPage = []"
  "plannedMarks resetPage = []"
  "plannedMarks blankPage = []"
  by (simp_all add: newsletterPage_def retypedPage_def sharedGroupPage_def
        profilePage_def shortPasswordPage_def confirmFirstPage_def noButtonPage_def resetPage_def
        page_defs check_defs)

subsection \<open>Required email fields\<close>

lemma signupPage_run:
  "validateForm signupPage = (Inr False, snd (validateForm signupPage))"
  by (simp add: validateForm_flat feedbackFlat_def signupPage_def blankPage_def blankField_def
        plannedMarks_def fieldMessage_def trim_def isSpace_def confirmMark_def isPasswordInput_def
        isConfirmInput_def isValidEmail_plain emailTest_def emailPart_def)

text \<open>
  Claim C3, as the code has it. \<open>validateForm\<close> looks only at the fields matched by
  \<open>[required]\<close>. For a required field of type \<open>email\<close>, in a run that returns: when the trimmed
  value is not empty and the value has no \<open>@\<close> or no dot, the field is marked with the format
  message, carries the class afterwards and the result is false; when the trimmed value is
  empty, the field is marked with the required message and not with the format message.
\<close>

theorem validateForm_required_email:
  assumes "validateForm p = (Inr ok, q)"
    and "i < length (controls p)"
    and "required (controls p ! i)"
    and "ftype (controls p ! i) = ''email''"
  shows "(trim (fvalue (controls p ! i)) \<noteq> [] \<and>
            (CHR ''@'' \<notin> set (fvalue (controls p ! i)) \<or> CHR ''.'' \<notin> set (fvalue (controls p ! i))) \<longrightarrow>
            Marked i ''Please enter a valid email address'' \<in> set (during p q) \<and>
            isInvalid (controls q ! i) \<and> ok = False) \<and>
         (trim (fvalue (controls p ! i)) = [] \<longrightarrow>
            Marked i ''This field is required'' \<in> set (during p q) \<and>
            Marked i ''Please enter a valid email address'' \<notin> set (during p q) \<and>
            isInvalid (controls q ! i) \<and> ok = False)"
proof -
  let ?f = "controls p ! i"
  note q = validateForm_applyMarks[OF assms(1)]
  have inv: "isInvalid (controls q ! i)" if "(i, m) \<in> set (plannedMarks p)" for m
    using that assms(2) unfolding q(1) nth_controls_applyMarks by (force simp: image_iff)
  have no: "ok = False" if "(i, m) \<in> set (plannedMarks p)" for m
    using that q(2) by auto
  have a: "(i, ''Please enter a valid email address'') \<in> set (plannedMarks p)"
    if "trim (fvalue ?f) \<noteq> []" "CHR ''@'' \<notin> set (fvalue ?f) \<or> CHR ''.'' \<notin> set (fvalue ?f)"
  proof -
    from that(2) have "\<not> isValidEmail (fvalue ?f)"
      using isValidEmail_needs_at isValidEmail_needs_dot by blast
    with that(1) assms show ?thesis by (simp add: plannedMarks_set fieldMessage_def)
  qed
  have b: "(i, ''This field is required'') \<in> set (plannedMarks p)"
     "(i, ''Please enter a valid email address'') \<notin> set (plannedMarks p)"
    if "trim (fvalue ?f) = []"
    using that assms by (simp_all add: plannedMarks_set fieldMessage_def confirmMark_set)
  show ?thesis
    unfolding q(1) Marked_in_during_applyMarks
    using a b inv no unfolding q(1) by blast
qed

theorem validateForm_required_email_witness:
  "fst (validateForm signupPage) = Inr False \<and>
   Marked 0 ''Please enter a valid email address'' \<in> set (during signupPage (snd (validateForm signupPage))) \<and>
   isInvalid (controls (snd (validateForm signupPage)) ! 0) \<and>
   Marked 1 ''This field is required'' \<in> set (during signupPage (snd (validateForm signupPage))) \<and>
   Marked 1 ''Please enter a valid email address'' \<notin> set (during signupPage (snd (validateForm signupPage))) \<and>
   isInvalid (controls (snd (validateForm signupPage)) ! 1)"
proof -
  have a: "0 < length (controls signupPage)" "required (controls signupPage ! 0)"
    "ftype (controls signupPage ! 0) = ''email''"
    and a': "trim (fvalue (controls signupPage ! 0)) \<noteq> []"
    "CHR ''@'' \<notin> set (fvalue (controls signupPage ! 0))"
    by (simp_all add: signupPage_def blankPage_def blankField_def trim_def isSpace_def)
  have b: "1 < length (controls signupPage)" "required (controls signupPage ! 1)"
    "ftype (controls signupPage ! 1) = ''email''"
    and b': "trim (fvalue (controls signupPage ! 1)) = []"
    by (simp_all add: signupPage_def blankPage_def blankField_def trim_def isSpace_def)
  have "fst (validateForm signupPage) = Inr False"
    using signupPage_run by (metis fst_conv)
  then show ?thesis
    using validateForm_required_email [OF signupPage_run a] a'
          validateForm_required_email [OF signupPage_run b] b'
    by simp
qed

text \<open>
  Claim C3 as it is written speaks of every email field. On the newsletter form the email
  field is not required: it holds \<open>foo\<close>, a non-empty value with no \<open>@\<close>, and \<open>validateForm\<close>
  returns true, marks nothing and leaves the field without the class.
\<close>

theorem validateForm_optional_email_unchecked:
  "ftype (controls newsletterPage ! 0) = ''email'' \<and>
   fvalue (controls newsletterPage ! 0) = ''foo'' \<and>
   fst (validateForm newsletterPage) = Inr True \<and>
   during newsletterPage (snd (validateForm newsletterPage)) = [] \<and>
   \<not> isInvalid (controls (snd (validateForm newsletterPage)) ! 0)"
  by (simp add: validateForm_flat flat_examples planned_examples during_def)
     (simp add: newsletterPage_def page_defs)

subsection \<open>The result of validateForm and the annotations it leaves\<close>


lemma run_examples:
  "validateForm profilePage = (Inr False, applyMarks [(0, ''This field is required'')] profilePage)"
  "validateForm retypedPage = (Inr True, retypedPage)"
  "validateForm sharedGroupPage =
     (Inr False, applyMarks [(0, ''This field is required''), (1, ''Please enter a valid email address'')]
        sharedGroupPage)"
  "validateForm confirmFirstPage = (Inr True, confirmFirstPage)"
  "validateForm shortPasswordPage =
     (Inr False, applyMarks [(0, ''Password must be at least 8 characters'')] shortPasswordPage)"
  by (simp_all add: validateForm_flat flat_examples planned_examples)









subsection \<open>The blur listener against the loop body of validateForm\<close>

lemmas field_eval = fieldMessage_def passwordTooShort_def trim_def isSpace_def isValidEmail_plain
  emailTest_def emailPart_def parseInt_def isDigit_def digitsVal_def digitVal_def showNumber_def
  showNat.simps digitChar_def

lemma validateField_shortPassword:
  "validateField shortPasswordPage 0 True =
     (Inr False, annotate shortPasswordPage (0, ''Password must be at least 8 characters''))"
  by (simp add: validateField_flat flat_examples)
     (simp add: shortPasswordPage_def blankPage_def blankField_def field_eval)

lemma blurHandler_shortPassword: "blurHandler shortPasswordPage 0 = (None, shortPasswordPage)"
  by (simp add: blurHandler_def shortPasswordPage_def blankPage_def blankField_def field_eval)

lemma blurHandler_newsletter:
  "blurHandler newsletterPage 0 = (None, annotate newsletterPage (0, ''Please enter a valid email address''))"
proof -
  have "blurHandler newsletterPage 0 = markFieldAsInvalid newsletterPage 0 ''Please enter a valid email address''"
    by (simp add: blurHandler_def newsletterPage_def blankPage_def blankField_def field_eval)
  then show ?thesis by (simp add: markFieldAsInvalid_flat flat_examples)
qed

text \<open>
  Claim C4, as the code has it. On a required field the blur listener does what the loop
  body of \<open>validateForm\<close> does for that field (same annotation, same message, same exception)
  whenever the trimmed value is empty or the minimum-length check of a password does not
  fail. Where that check fails on a non-empty value, the blur listener does nothing: it has
  no such check. On a field that is not required, which \<open>validateForm\<close> never visits, the
  blur listener still applies the format check to a non-empty email value.
\<close>

theorem blurHandler_against_validateField:
  "(required (controls p ! i) \<and>
      (trim (fvalue (controls p ! i)) = [] \<or> passwordTooShort (controls p ! i) = None) \<longrightarrow>
      blurHandler p i = asHandler (validateField p i ok)) \<and>
   (required (controls p ! i) \<and> trim (fvalue (controls p ! i)) \<noteq> [] \<and>
      passwordTooShort (controls p ! i) \<noteq> None \<longrightarrow>
      blurHandler p i = (None, p)) \<and>
   (\<not> required (controls p ! i) \<longrightarrow>
      blurHandler p i =
        (if ftype (controls p ! i) = ''email'' \<and> fvalue (controls p ! i) \<noteq> [] \<and>
            \<not> isValidEmail (fvalue (controls p ! i))
         then markFieldAsInvalid p i ''Please enter a valid email address'' else (None, p)))"
proof -
  have t: "trim v \<noteq> [] \<Longrightarrow> v \<noteq> []" for v by (auto simp: trim_def)
  show ?thesis
    by (auto simp: blurHandler_def validateField_def asHandler_def markAndFail_def
          passwordTooShort_def Let_def dest: t split: prod.splits option.splits if_splits)
qed

theorem blurHandler_against_validateField_witness:
  "blurHandler signupPage 0 = asHandler (validateField signupPage 0 True) \<and>
   blurHandler shortPasswordPage 0 = (None, shortPasswordPage) \<and>
   blurHandler newsletterPage 0 = markFieldAsInvalid newsletterPage 0 ''Please enter a valid email address''"
proof -
  have a: "required (controls signupPage ! 0)" "trim (fvalue (controls signupPage ! 0)) \<noteq> []"
    "passwordTooShort (controls signupPage ! 0) = None"
    by (simp_all add: signupPage_def blankPage_def blankField_def field_eval)
  have b: "required (controls shortPasswordPage ! 0)" "trim (fvalue (controls shortPasswordPage ! 0)) \<noteq> []"
    "passwordTooShort (controls shortPasswordPage ! 0) = Some 8"
    by (simp_all add: shortPasswordPage_def blankPage_def blankField_def field_eval)
  have c: "\<not> required (controls newsletterPage ! 0)" "ftype (controls newsletterPage ! 0) = ''email''"
    "fvalue (controls newsletterPage ! 0) \<noteq> []" "\<not> isValidEmail (fvalue (controls newsletterPage ! 0))"
    by (simp_all add: newsletterPage_def blankPage_def blankField_def field_eval)
  from blurHandler_against_validateField [of signupPage 0 True]
       blurHandler_against_validateField [of shortPasswordPage 0 True]
       blurHandler_against_validateField [of newsletterPage 0 True]
  show ?thesis using a b c by simp
qed

text \<open>
  Claim C4 as it is written fails in both directions. The required password field holding
  \<open>abc\<close> with a minimum length of 8 is marked by the loop body of \<open>validateForm\<close> and left
  alone by the blur listener. The optional email field holding \<open>foo\<close> is marked by the blur
  listener, and a run of \<open>validateForm\<close> marks nothing.
\<close>

theorem blurHandler_differs_from_validateForm:
  "required (controls shortPasswordPage ! 0) \<and>
   fst (validateField shortPasswordPage 0 True) = Inr False \<and>
   during shortPasswordPage (snd (validateField shortPasswordPage 0 True)) =
     [Marked 0 ''Password must be at least 8 characters''] \<and>
   fst (blurHandler shortPasswordPage 0) = None \<and>
   during shortPasswordPage (snd (blurHandler shortPasswordPage 0)) = [] \<and>
   during newsletterPage (snd (validateForm newsletterPage)) = [] \<and>
   during newsletterPage (snd (blurHandler newsletterPage 0)) =
     [Marked 0 ''Please enter a valid email address'']"
  by (simp add: validateField_shortPassword blurHandler_shortPassword blurHandler_newsletter
        validateForm_flat flat_examples planned_examples during_def)
     (simp add: shortPasswordPage_def blankPage_def blankField_def)

subsection \<open>Password confirmation\<close>

text \<open>
  When the first password input and the first password input bearing \<open>data-confirm\<close> hold
  different values, a run of \<open>validateForm\<close> that returns has marked the latter with the
  mismatch message and returns false.
\<close>

lemma validateForm_confirmation:
  assumes "validateForm p = (Inr ok, q)"
    and "querySelectorFrom isPasswordInput 0 (controls p) = Some pw"
    and "querySelectorFrom isConfirmInput 0 (controls p) = Some cf"
    and "fvalue (controls p ! pw) \<noteq> fvalue (controls p ! cf)"
  shows "Marked cf ''Passwords do not match'' \<in> set (during p q) \<and> isInvalid (controls q ! cf) \<and>
         ok = False"
proof -
  note q = validateForm_applyMarks[OF assms(1)]
  from assms(2-4) have m: "(cf, ''Passwords do not match'') \<in> set (plannedMarks p)"
    by (simp add: plannedMarks_set confirmMark_set)
  then have "cf < length (controls p)" by (rule plannedMarks_bound)
  moreover from m have "cf \<in> fst ` set (plannedMarks p)" by (force simp: image_iff)
  ultimately have "isInvalid (controls q ! cf)" unfolding q(1) nth_controls_applyMarks by simp
  moreover from m q(2) have "ok = False" by auto
  ultimately show ?thesis using m unfolding q(1) Marked_in_during_applyMarks by simp
qed

text \<open>
  Claim C5 at the form whose confirmation field comes first: \<open>form.querySelector\<close> returns the
  confirmation field for both selectors, the field is compared with itself, and
  \<open>validateForm\<close> returns true without marking anything although the two values differ.
\<close>

theorem validateForm_confirmation_first_unchecked:
  "isConfirmInput (controls confirmFirstPage ! 0) \<and>
   isPasswordInput (controls confirmFirstPage ! 1) \<and>
   \<not> confirm (controls confirmFirstPage ! 1) \<and>
   fvalue (controls confirmFirstPage ! 0) \<noteq> fvalue (controls confirmFirstPage ! 1) \<and>
   fst (validateForm confirmFirstPage) = Inr True \<and>
   during confirmFirstPage (snd (validateForm confirmFirstPage)) = [] \<and>
   \<not> isInvalid (controls (snd (validateForm confirmFirstPage)) ! 0)"
  by (simp add: run_examples during_def)
     (simp add: confirmFirstPage_def blankPage_def blankField_def isConfirmInput_def isPasswordInput_def)

subsection \<open>Notifications\<close>

lemma validateForm_valid:
  "validateForm p = (Inr True, q) \<Longrightarrow> q = p"
  using validateForm_applyMarks[of p True q] by simp

lemma plainText_literals [simp]:
  "plainText ''Success!''" "plainText ''Operation completed successfully.''" "plainText ''Error''"
  "plainText ''An error occurred''" "plainText ''An error occurred. Please try again.''"
  by (simp_all add: plainText_def)

lemma showNotification_found:
  "closeButtonFound hasClose title message \<Longrightarrow>
     showNotification hasClose p title message type =
       (Inr \<lparr>className = ''toast '' @ type, body = Markup (toastMarkup title message)\<rparr>,
        p\<lparr>toasts := toasts p @
          [\<lparr>className = ''toast '' @ type, body = Markup (toastMarkup title message)\<rparr>]\<rparr>)"
  by (simp add: showNotification_def Let_def)

lemma showNotification_missing:
  "\<not> closeButtonFound hasClose title message \<Longrightarrow>
     showNotification hasClose p title message type = (Inl (TypeError (nullRead ''addEventListener'')), p)"
  by (simp add: showNotification_def)

lemma showNotification_plain:
  "plainText title \<Longrightarrow> plainText message \<Longrightarrow>
     showNotification hasClose p title message type =
       (Inr \<lparr>className = ''toast '' @ type, body = Markup (toastMarkup title message)\<rparr>,
        p\<lparr>toasts := toasts p @
          [\<lparr>className = ''toast '' @ type, body = Markup (toastMarkup title message)\<rparr>]\<rparr>)"
  by (simp add: showNotification_found closeButtonFound_def)

lemma feedbackFlat_emit [simp]: "feedbackFlat (emit e p) = feedbackFlat p"
  by (simp add: feedbackFlat_def emit_def)

lemma plannedMarks_emit [simp]: "plannedMarks (emit e p) = plannedMarks p"
  by (simp add: plannedMarks_def emit_def)

lemma validateForm_emit_valid:
  "feedbackFlat p \<Longrightarrow> plannedMarks p = [] \<Longrightarrow>
     validateForm (emit PreventDefault p) = (Inr True, emit PreventDefault p)"
  by (simp add: validateForm_flat)

text \<open>
  The markup of a toast is the template with the title and the message spliced in
  unchanged, and it is handed to the browser as markup. When the parsed toast holds its
  close button, \<open>showNotification\<close> appends that one toast to the container; when it does
  not, the call throws before anything is appended.
\<close>

lemma showNotification_branches:
  \<open>(closeButtonFound hasClose title message \<longrightarrow>
      showNotification hasClose p title message type =
        (Inr \<lparr>className = ''toast '' @ type, body = Markup (toastMarkup title message)\<rparr>,
         p\<lparr>toasts := toasts p @
           [\<lparr>className = ''toast '' @ type, body = Markup (toastMarkup title message)\<rparr>]\<rparr>)) \<and>
    (\<not> closeButtonFound hasClose title message \<longrightarrow>
      showNotification hasClose p title message type =
        (Inl (TypeError (nullRead ''addEventListener'')), p)) \<and>
    toastMarkup title message =
      ''\<newline>      <div class="toast-content">\<newline>        <h4 class="toast-title">'' @ title @
      ''</h4>\<newline>        <p class="toast-message">'' @ message @
      ''</p>\<newline>      </div>\<newline>      <button class="toast-close" aria-label="Close">&times;</button>\<newline>    ''\<close>
  by (simp add: showNotification_found showNotification_missing toastMarkup_def)

text \<open>
  Claim C10 at the message \<open><!--\<close>: the markup opens a comment that never ends, so the parsed
  toast has no close button. For a parser that finds none in this one markup,
  \<open>closeButton.addEventListener\<close> throws on \<open>null\<close> and the container is as before: no toast
  has been appended.
\<close>

theorem showNotification_swallowed_close_button:
  "fst (showNotification (\<lambda>m. m \<noteq> toastMarkup ''Error'' ''<!--'') blankPage ''Error'' ''<!--'' ''error'')
     = Inl (TypeError (nullRead ''addEventListener'')) \<and>
   toasts (snd (showNotification (\<lambda>m. m \<noteq> toastMarkup ''Error'' ''<!--'') blankPage
                  ''Error'' ''<!--'' ''error'')) = toasts blankPage"
  by (simp add: showNotification_def closeButtonFound_def plainText_def)

subsection \<open>The submit listener on a successful response\<close>

lemma getProp_not_null: "(\<exists>r. getProp j k = Inr r) = (j \<noteq> JNull)"
  by (cases j) (simp_all add: getProp_def)




text \<open>
  The body \<open>null\<close>, which the statement above leaves out: reading \<open>redirect\<close> throws after the
  success notification, nothing is reset, and an error notification follows.
\<close>

lemma submit_success_null_body:
  "fst (submitHandler (\<lambda>_. False) (Response True (Parsed JNull)) resetPage) = None \<and>
   map fvalue (controls (snd (submitHandler (\<lambda>_. False) (Response True (Parsed JNull)) resetPage)))
     = [''typed''] \<and>
   toasts (snd (submitHandler (\<lambda>_. False) (Response True (Parsed JNull)) resetPage)) =
     [\<lparr>className = ''toast success'',
       body = Markup (toastMarkup ''Success!'' ''Operation completed successfully.'')\<rparr>,
      \<lparr>className = ''toast error'',
       body = Markup (toastMarkup ''Error'' (nullRead ''redirect''))\<rparr>]"
proof -
  have v: "validateForm (emit PreventDefault resetPage) = (Inr True, emit PreventDefault resetPage)"
    by (simp add: validateForm_emit_valid flat_examples planned_examples)
  have n: "plainText (nullRead ''redirect'')" "nullRead ''redirect'' \<noteq> []"
    by (simp_all add: plainText_def nullRead_def)
  show ?thesis
    unfolding submitHandler_def v
    by (simp add: setFormLoading_def emit_def tryBlock_def catchBlock_def onSuccess_def
          showNotification_plain n resultOf_def getProp_def exnMessage_def Let_def resetPage_def
          blankPage_def blankField_def)
qed

subsection \<open>The submit listener on a failed response\<close>




text \<open>
  The body \<open>null\<close>, which the statement above leaves out: reading \<open>message\<close> throws inside the
  \<open>try\<close> block, and the notification shows the message of that \<open>TypeError\<close>.
\<close>

lemma submit_failure_null_body:
  "toasts (snd (submitHandler (\<lambda>_. False) (Response False (Parsed JNull)) blankPage)) =
     [\<lparr>className = ''toast error'',
       body = Markup (toastMarkup ''Error'' (nullRead ''message''))\<rparr>] \<and>
   nullRead ''message'' \<noteq> ''An error occurred''"
proof -
  have v: "validateForm (emit PreventDefault blankPage) = (Inr True, emit PreventDefault blankPage)"
    by (simp add: validateForm_emit_valid flat_examples planned_examples)
  have n: "plainText (nullRead ''message'')" "nullRead ''message'' \<noteq> []"
    by (simp_all add: plainText_def nullRead_def)
  show ?thesis
    unfolding submitHandler_def v
    by (simp add: setFormLoading_def emit_def tryBlock_def catchBlock_def showNotification_plain n
          resultOf_def getProp_def exnMessage_def Let_def blankPage_def)
       (simp add: nullRead_def)
qed

subsection \<open>The loading cycle\<close>

text \<open>
  For a form with a submit control: a run whose validation fails issues no request and never
  switches the loading state; a run whose validation passes switches it on, issues one
  request and switches it off once, whatever the request gives and whatever the \<open>try\<close> and
  \<open>catch\<close> blocks throw.
\<close>

lemma showNotification_frame:
  "trace (snd (showNotification h p t m ty)) = trace p"
  "submitButton (snd (showNotification h p t m ty)) = submitButton p"
  "formLoading (snd (showNotification h p t m ty)) = formLoading p"
  by (simp_all add: showNotification_def Let_def)

lemma onSuccess_frame:
  "trace (snd (onSuccess h p j)) = trace p"
  "submitButton (snd (onSuccess h p j)) = submitButton p"
  "formLoading (snd (onSuccess h p j)) = formLoading p"
  by (auto simp: onSuccess_def showNotification_def Let_def formReset_def split: sum.splits prod.splits)

lemma tryBlock_frame:
  "trace (snd (tryBlock h p oc)) =
     trace p @ [Fetch (if formAction p \<noteq> [] then formAction p else href p)
                      (if formMethod p \<noteq> [] then formMethod p else ''POST'')]"
  "submitButton (snd (tryBlock h p oc)) = submitButton p"
  "formLoading (snd (tryBlock h p oc)) = formLoading p"
  by (auto simp: tryBlock_def Let_def onSuccess_frame emit_def split: fetched.splits sum.splits)

lemma catchBlock_frame:
  "trace (snd (catchBlock h p e)) = trace p @ [ConsoleError e]"
  "submitButton (snd (catchBlock h p e)) = submitButton p"
  "formLoading (snd (catchBlock h p e)) = formLoading p"
  by (auto simp: catchBlock_def showNotification_def Let_def emit_def split: sum.splits prod.splits)

lemma submitHandler_loading_cycle:
  assumes "validateForm (emit PreventDefault p) = (Inr True, p1)"
    and "submitButton p = Some b"
  shows "filter cycleEvent (during p (snd (submitHandler h oc p))) =
           [LoadingOn,
            Fetch (if formAction p \<noteq> [] then formAction p else href p)
                  (if formMethod p \<noteq> [] then formMethod p else ''POST''),
            LoadingOff] \<and>
         formLoading (snd (submitHandler h oc p)) = False \<and>
         submitButton (snd (submitHandler h oc p)) = Some (b\<lparr>disabled := False, btnLoading := False\<rparr>)"
proof -
  from assms(1) have "p1 = emit PreventDefault p" by (rule validateForm_valid)
  with assms(1) have v: "validateForm (emit PreventDefault p) = (Inr True, emit PreventDefault p)"
    by simp
  define p2 where "p2 = emit LoadingOn (emit PreventDefault p
      \<lparr>submitButton := Some (b\<lparr>disabled := True, btnLoading := True\<rparr>), formLoading := True\<rparr>)"
  have on: "setFormLoading (emit PreventDefault p) True = (None, p2)"
    using assms(2) by (simp add: setFormLoading_def emit_def p2_def)
  obtain r3 p3 where t: "tryBlock h p2 oc = (r3, p3)" by (cases "tryBlock h p2 oc")
  define r4 where "r4 = (case r3 of None \<Rightarrow> (None, p3) | Some e \<Rightarrow> catchBlock h p3 e)"
  have p3: "trace p3 = trace p @ [PreventDefault, LoadingOn,
              Fetch (if formAction p \<noteq> [] then formAction p else href p)
                    (if formMethod p \<noteq> [] then formMethod p else ''POST'')]"
      "submitButton p3 = Some (b\<lparr>disabled := True, btnLoading := True\<rparr>)"
    using tryBlock_frame[of h p2 oc] unfolding t by (simp_all add: p2_def emit_def)
  have "\<exists>es. trace (snd r4) = trace p @ [PreventDefault, LoadingOn,
              Fetch (if formAction p \<noteq> [] then formAction p else href p)
                    (if formMethod p \<noteq> [] then formMethod p else ''POST'')] @ es \<and>
            filter cycleEvent es = []"
    using p3 by (cases r3) (auto simp: r4_def catchBlock_frame cycleEvent_def)
  then obtain es where es: "trace (snd r4) = trace p @ [PreventDefault, LoadingOn,
              Fetch (if formAction p \<noteq> [] then formAction p else href p)
                    (if formMethod p \<noteq> [] then formMethod p else ''POST'')] @ es"
      "filter cycleEvent es = []" by blast
  have p4: "submitButton (snd r4) = Some (b\<lparr>disabled := True, btnLoading := True\<rparr>)"
    using p3 by (cases r3) (auto simp: r4_def catchBlock_frame)
  have "submitHandler h oc p =
          (case setFormLoading (snd r4) False of (Some e, p5) \<Rightarrow> (Some e, p5) | (None, p5) \<Rightarrow> (fst r4, p5))"
    unfolding submitHandler_def v
    by (simp add: on t r4_def split: option.splits prod.splits)
  then show ?thesis
    using p4 es by (simp add: setFormLoading_def during_def emit_def cycleEvent_def)
qed

lemma submitHandler_invalid:
  assumes "validateForm (emit PreventDefault p) = (Inr False, p1)"
  shows "submitHandler h oc p = (None, p1) \<and> filter cycleEvent (during p p1) = [] \<and>
         formLoading p1 = formLoading p"
proof -
  note q = validateForm_applyMarks(1)[OF assms]
  have "filter cycleEvent (during p p1) = []"
    unfolding q by (simp add: during_def trace_applyMarks emit_def cycleEvent_def filter_empty_conv)
  moreover have "formLoading p1 = formLoading p" unfolding q by (simp add: emit_def)
  ultimately show ?thesis by (simp add: submitHandler_def assms)
qed

text \<open>
  Claim C1 at the valid form with no submit control: \<open>validateForm\<close> returns true, and the
  only effect of the listener is \<open>preventDefault\<close>: the loading state is never switched on and
  no request is issued, because \<open>setFormLoading(form, true)\<close> runs before the \<open>try\<close> block
  and throws.
\<close>

theorem submit_without_button_no_request:
  "fst (validateForm (emit PreventDefault noButtonPage)) = Inr True \<and>
   during noButtonPage (snd (submitHandler hasClose outcome noButtonPage)) = [PreventDefault] \<and>
   formLoading (snd (submitHandler hasClose outcome noButtonPage)) = False"
proof -
  have v: "validateForm (emit PreventDefault noButtonPage) = (Inr True, emit PreventDefault noButtonPage)"
    by (simp add: validateForm_emit_valid flat_examples planned_examples)
  show ?thesis
    unfolding submitHandler_def v
    by (simp add: setFormLoading_def emit_def during_def noButtonPage_def blankPage_def)
qed

text \<open>
  Claim C9 at the same form: the \<open>TypeError\<close> thrown by \<open>submitButton.disabled = true\<close> leaves
  the submit listener, whatever the request would have given.
\<close>

theorem submit_without_button_throws:
  "submitButton noButtonPage = None \<and>
   fst (validateForm (emit PreventDefault noButtonPage)) = Inr True \<and>
   fst (submitHandler hasClose outcome noButtonPage) = Some (TypeError (nullWrite ''disabled''))"
proof -
  have v: "validateForm (emit PreventDefault noButtonPage) = (Inr True, emit PreventDefault noButtonPage)"
    by (simp add: validateForm_emit_valid flat_examples planned_examples)
  show ?thesis
    unfolding submitHandler_def v
    by (simp add: setFormLoading_def emit_def noButtonPage_def blankPage_def)
qed

subsection \<open>Construction\<close>

lemma getElementById_None: "(getElementById d i = None) = (countId i d = 0)"
  by (auto simp: getElementById_def countId_def find_None_iff filter_empty_conv)

lemma countId_createNotificationContainer:
  "countId i (createNotificationContainer d) =
     (if i = ''notification-container'' then max 1 (countId i d) else countId i d)"
proof (cases "getElementById d ''notification-container''")
  case None
  then have "countId ''notification-container'' d = 0" by (simp add: getElementById_None)
  with None show ?thesis
    by (auto simp: createNotificationContainer_def countId_def)
next
  case (Some c)
  then have "countId ''notification-container'' d \<noteq> 0"
    using getElementById_None[of d "''notification-container''"] by simp
  with Some show ?thesis
    by (auto simp: createNotificationContainer_def)
qed

lemma countId_addStyles:
  "countId i (addStyles d) =
     (if i = ''form-handler-styles'' then max 1 (countId i d) else countId i d)"
proof (cases "getElementById d ''form-handler-styles''")
  case None
  then have "countId ''form-handler-styles'' d = 0" by (simp add: getElementById_None)
  with None show ?thesis
    by (auto simp: addStyles_def countId_def)
next
  case (Some c)
  then have "countId ''form-handler-styles'' d \<noteq> 0"
    using getElementById_None[of d "''form-handler-styles''"] by simp
  with Some show ?thesis
    by (auto simp: addStyles_def)
qed

lemma countId_setupForms [simp]: "countId i (setupForms d) = countId i d"
  by (simp add: setupForms_def countId_def)

lemma countId_construct:
  "countId ''notification-container'' (construct d) = max 1 (countId ''notification-container'' d)"
  "countId ''form-handler-styles'' (construct d) = max 1 (countId ''form-handler-styles'' d)"
  by (simp_all add: construct_def countId_addStyles countId_createNotificationContainer)

lemma countId_construct_funpow:
  "countId ''notification-container'' ((construct ^^ Suc n) d) = max 1 (countId ''notification-container'' d)"
  "countId ''form-handler-styles'' ((construct ^^ Suc n) d) = max 1 (countId ''form-handler-styles'' d)"
  by (induction n) (simp_all add: countId_construct)

text \<open>
  Claim C8. In a document that has at most one element with the id of the notification
  container and at most one with the id of the style block, constructing the component
  once or more leaves exactly one of each.
\<close>

theorem construct_singletons:
  assumes "countId ''notification-container'' d \<le> 1"
    and "countId ''form-handler-styles'' d \<le> 1"
  shows "countId ''notification-container'' ((construct ^^ Suc n) d) = 1 \<and>
         countId ''form-handler-styles'' ((construct ^^ Suc n) d) = 1"
  unfolding countId_construct_funpow using assms by simp

theorem construct_singletons_witness:
  "countId ''notification-container'' freshDocument \<le> 1 \<and>
   countId ''form-handler-styles'' freshDocument \<le> 1 \<and>
   countId ''notification-container'' ((construct ^^ Suc (Suc 0)) freshDocument) = 1 \<and>
   countId ''form-handler-styles'' ((construct ^^ Suc (Suc 0)) freshDocument) = 1"
proof -
  have a: "countId ''notification-container'' freshDocument \<le> 1"
    "countId ''form-handler-styles'' freshDocument \<le> 1"
    by (simp_all add: countId_def freshDocument_def)
  from construct_singletons [OF a, of "Suc 0"] a
  show ?thesis by blast
qed

end
